theory Spec2Isabelle
  imports Main "HOL-Library.Sublist"
begin

section \<open>Errors\<close>

text \<open>
  Go types of the values that the JSON decoder can fill. Only the kinds used by the
  envelope of bitquery.go and by simple caller targets are covered: int, string, bool,
  json.RawMessage, named structs with ASCII field names, slices, pointers and named types.
  Floating point and interface targets are outside of this development.
\<close>

datatype gtype =
    TInt
  | TString
  | TBool
  | TRawMessage
  | TStruct string string "(string \<times> gtype) list"
  | TSlice gtype
  | TPtr gtype
  | TNamed string gtype

text \<open>
  The error values that can reach a caller of bitquery.go. \<open>SyntaxError\<close>,
  \<open>UnmarshalTypeError\<close> (Value, Type, Struct, Field) and \<open>InvalidUnmarshalError\<close> are
  those of encoding/json (byte offsets are left out), \<open>errorString\<close> is what fmt.Errorf
  builds, and \<open>externalError\<close> is any error handed back by json.Marshal, net/url, net/http or
  the response body reader.
\<close>

datatype error =
    SyntaxError string
  | UnmarshalTypeError string gtype string string
  | InvalidUnmarshalError string
  | errorString string
  | externalError string

fun type_String :: "gtype \<Rightarrow> string" where
  "type_String TInt = ''int''"
| "type_String TString = ''string''"
| "type_String TBool = ''bool''"
| "type_String TRawMessage = ''json.RawMessage''"
| "type_String (TStruct pkg name fs) = pkg @ ''.'' @ name"
| "type_String (TSlice t) = ''[]'' @ type_String t"
| "type_String (TPtr t) = ''*'' @ type_String t"
| "type_String (TNamed name t) = name"

fun Error :: "error \<Rightarrow> string" where
  "Error (SyntaxError msg) = msg"
| "Error (UnmarshalTypeError v t s f) =
     (if s \<noteq> [] \<or> f \<noteq> []
      then ''json: cannot unmarshal '' @ v @ '' into Go struct field '' @ s @ ''.'' @ f @
           '' of type '' @ type_String t
      else ''json: cannot unmarshal '' @ v @ '' into Go value of type '' @ type_String t)"
| "Error (InvalidUnmarshalError msg) = msg"
| "Error (errorString msg) = msg"
| "Error (externalError msg) = msg"

definition strings_Contains :: "string \<Rightarrow> string \<Rightarrow> bool" where
  "strings_Contains s substr = sublist substr s"

section \<open>The request executor\<close>

text \<open>
  \<open>BitqueryModel\<close> is the interface of three methods; a value of it is given by what the
  three methods return. The type \<open>'v\<close> stands for \<open>map[string]any\<close>.
\<close>

record 'v BitqueryModel =
  ToMap :: 'v
  Query :: string
  Endpoint :: string

datatype 'v any = AnyString string | AnyVars 'v

record request =
  Method :: string
  URL :: string
  Header :: "(string \<times> string list) list"
  ReqBody :: string

text \<open>
  A response body is a stream: \<open>io.ReadAll\<close> returns the bytes read and the error that
  stopped the reading, if any.
\<close>

record body =
  content :: string
  read_err :: "error option"

record response =
  StatusCode :: int
  Body :: body

text \<open>
  The library calls of \<open>Do\<close> whose outcome depends on the caller's values or on the
  network: json.Marshal on the request object, the URL parser behind http.NewRequest, and the
  round trip of the shared client.
\<close>

record 'v env =
  json_Marshal :: "(string \<times> 'v any) list \<Rightarrow> error + string"
  url_Parse :: "string \<Rightarrow> error option"
  client_Do :: "request \<Rightarrow> error + response"

text \<open>What a call does to the outside: requests handed to the client, bodies closed.\<close>

datatype event = ClientDo request | BodyClose body

record Client =
  Timeout :: int

definition Second :: int where
  "Second = 1000000000"

definition HttpClient :: Client where
  "HttpClient = \<lparr>Timeout = Second * 40\<rparr>"

definition MethodPost :: string where
  "MethodPost = ''POST''"

text \<open>
  textproto.CanonicalMIMEHeaderKey: a key made of token bytes gets an upper-case letter at
  the start and after each hyphen and lower-case letters elsewhere; any other key is kept.
\<close>

definition validHeaderFieldByte :: "char \<Rightarrow> bool" where
  "validHeaderFieldByte c =
     (let n = (of_char c :: nat) in
      (48 \<le> n \<and> n \<le> 57) \<or> (65 \<le> n \<and> n \<le> 90) \<or> (97 \<le> n \<and> n \<le> 122) \<or>
      c \<in> set ''!#$%&*+-.^_`|~'' \<or> n = 39)"

fun canon_bytes :: "bool \<Rightarrow> string \<Rightarrow> string" where
  "canon_bytes upper [] = []"
| "canon_bytes upper (c # cs) =
     (let n = (of_char c :: nat);
          c' = (if upper \<and> 97 \<le> n \<and> n \<le> 122 then char_of (n - 32)
                else if \<not> upper \<and> 65 \<le> n \<and> n \<le> 90 then char_of (n + 32)
                else c)
      in c' # canon_bytes (c' = CHR ''-'') cs)"

definition CanonicalMIMEHeaderKey :: "string \<Rightarrow> string" where
  "CanonicalMIMEHeaderKey s =
     (if list_all validHeaderFieldByte s then canon_bytes True s else s)"

definition Header_Set :: "string \<Rightarrow> string \<Rightarrow> request \<Rightarrow> request" where
  "Header_Set key v r =
     r\<lparr>Header := (CanonicalMIMEHeaderKey key, [v]) #
                  filter (\<lambda>kv. fst kv \<noteq> CanonicalMIMEHeaderKey key) (Header r)\<rparr>"

definition Header_Get :: "request \<Rightarrow> string \<Rightarrow> string" where
  "Header_Get r key =
     (case map_of (Header r) (CanonicalMIMEHeaderKey key) of
        None \<Rightarrow> []
      | Some vs \<Rightarrow> (case vs of [] \<Rightarrow> [] | v # _ \<Rightarrow> v))"

definition http_NewRequest :: "'v env \<Rightarrow> string \<Rightarrow> string \<Rightarrow> string \<Rightarrow> error + request" where
  "http_NewRequest E method url b =
     (case url_Parse E url of
        Some err \<Rightarrow> Inl err
      | None \<Rightarrow> Inr \<lparr>Method = method, URL = url, Header = [], ReqBody = b\<rparr>)"

definition io_ReadAll :: "body \<Rightarrow> string \<times> error option" where
  "io_ReadAll b = (content b, read_err b)"

text \<open>
  \<open>Do\<close>, lines 35 to 61. The deferred \<open>response.Body.Close()\<close> runs on both returns that
  follow it.
\<close>

definition Do :: "'v env \<Rightarrow> string \<Rightarrow> 'v BitqueryModel \<Rightarrow> event list \<Rightarrow> (error + string) \<times> event list" where
  "Do E apikey x w =
     (case json_Marshal E [(''query'', AnyString (Query x)), (''variables'', AnyVars (ToMap x))] of
        Inl err \<Rightarrow> (Inl err, w)
      | Inr q \<Rightarrow>
         (case http_NewRequest E MethodPost (Endpoint x) q of
            Inl err \<Rightarrow> (Inl (errorString (''bad request: '' @ Error err)), w)
          | Inr request0 \<Rightarrow>
             (let request1 = Header_Set ''Content-Type'' ''application/json'' request0;
                  request2 = Header_Set ''X-API-KEY'' apikey request1;
                  w1 = w @ [ClientDo request2]
              in case client_Do E request2 of
                   Inl err \<Rightarrow>
                     (Inl (errorString (''the HTTP request failed with error '' @ Error err)), w1)
                 | Inr response \<Rightarrow>
                     (let (data, err) = io_ReadAll (Body response);
                          w2 = w1 @ [BodyClose (Body response)]
                      in case err of
                           Some e \<Rightarrow> (Inl e, w2)
                         | None \<Rightarrow> (Inr data, w2)))))"

section \<open>The JSON scanner of encoding/json\<close>

text \<open>
  A JSON value as the decoder sees it. Every element of an array and every member of an
  object comes with the bytes it was read from, since json.RawMessage keeps those bytes.
\<close>

datatype json =
    JNull
  | JBool bool
  | JNumber string
  | JString string
  | JArray "(string \<times> json) list"
  | JObject "(string \<times> string \<times> json) list"

text \<open>strconv.Quote on the one-rune string of a byte, between single quotes.\<close>

definition hexdigit :: "nat \<Rightarrow> char" where
  "hexdigit n = ''0123456789abcdef'' ! (n mod 16)"

definition quoteChar :: "char \<Rightarrow> string" where
  "quoteChar c =
     (let n = (of_char c :: nat) in
      if n = 39 then [CHR 0x27, CHR 0x5C, CHR 0x27, CHR 0x27]
      else if n = 34 then [CHR 0x27, CHR 0x22, CHR 0x27]
      else [CHR 0x27] @
        (if n = 92 then [CHR 0x5C, CHR 0x5C]
         else if 32 \<le> n \<and> n \<le> 126 then [c]
         else if 161 \<le> n \<and> n \<noteq> 173 then [char_of (192 + n div 64), char_of (128 + n mod 64)]
         else if n = 7 then [CHR 0x5C, CHR ''a'']
         else if n = 8 then [CHR 0x5C, CHR ''b'']
         else if n = 12 then [CHR 0x5C, CHR ''f'']
         else if n = 10 then [CHR 0x5C, CHR ''n'']
         else if n = 13 then [CHR 0x5C, CHR ''r'']
         else if n = 9 then [CHR 0x5C, CHR ''t'']
         else if n = 11 then [CHR 0x5C, CHR ''v'']
         else if n < 32 \<or> n = 127 then [CHR 0x5C, CHR ''x'', hexdigit (n div 16), hexdigit n]
         else [CHR 0x5C, CHR ''u'', CHR ''0'', CHR ''0'', hexdigit (n div 16), hexdigit n])
        @ [CHR 0x27])"

definition scan_error :: "char \<Rightarrow> string \<Rightarrow> error" where
  "scan_error c context = SyntaxError (''invalid character '' @ quoteChar c @ '' '' @ context)"

definition isSpace :: "char \<Rightarrow> bool" where
  "isSpace c = (c = CHR '' '' \<or> c = CHR 0x09 \<or> c = CHR 0x0D \<or> c = CHR 0x0A)"

definition isDigit :: "char \<Rightarrow> bool" where
  "isDigit c = (48 \<le> (of_char c :: nat) \<and> (of_char c :: nat) \<le> 57)"

definition isHex :: "char \<Rightarrow> bool" where
  "isHex c =
     (let n = (of_char c :: nat) in
      (48 \<le> n \<and> n \<le> 57) \<or> (97 \<le> n \<and> n \<le> 102) \<or> (65 \<le> n \<and> n \<le> 70))"

definition hexval :: "char \<Rightarrow> nat" where
  "hexval c =
     (let n = (of_char c :: nat) in
      if 48 \<le> n \<and> n \<le> 57 then n - 48
      else if 97 \<le> n \<and> n \<le> 102 then n - 87
      else n - 55)"

definition slice :: "string \<Rightarrow> nat \<Rightarrow> nat \<Rightarrow> string" where
  "slice data i j = take (j - i) (drop i data)"

subsection \<open>Unquoting a string literal\<close>

text \<open>\<open>getu4\<close>: the code unit of a leading \<open>\uXXXX\<close>, if there is one.\<close>

definition getu4 :: "string \<Rightarrow> nat option" where
  "getu4 s =
     (case s of
        b # u # h1 # h2 # h3 # h4 # _ \<Rightarrow>
          if b = CHR 0x5C \<and> u = CHR ''u'' \<and> isHex h1 \<and> isHex h2 \<and> isHex h3 \<and> isHex h4
          then Some (((hexval h1 * 16 + hexval h2) * 16 + hexval h3) * 16 + hexval h4)
          else None
      | _ \<Rightarrow> None)"

definition ReplacementChar :: nat where
  "ReplacementChar = 65533"

definition EncodeRune :: "nat \<Rightarrow> string" where
  "EncodeRune r0 =
     (let r = (if (55296 \<le> r0 \<and> r0 < 57344) \<or> 1114111 < r0 then ReplacementChar else r0) in
      if r < 128 then [char_of r]
      else if r < 2048 then [char_of (192 + r div 64), char_of (128 + r mod 64)]
      else if r < 65536 then
        [char_of (224 + r div 4096), char_of (128 + (r div 64) mod 64), char_of (128 + r mod 64)]
      else
        [char_of (240 + r div 262144), char_of (128 + (r div 4096) mod 64),
         char_of (128 + (r div 64) mod 64), char_of (128 + r mod 64)])"

definition utf16_DecodeRune :: "nat \<Rightarrow> nat option \<Rightarrow> nat" where
  "utf16_DecodeRune r1 r2o =
     (case r2o of
        None \<Rightarrow> ReplacementChar
      | Some r2 \<Rightarrow>
          if 55296 \<le> r1 \<and> r1 < 56320 \<and> 56320 \<le> r2 \<and> r2 < 57344
          then (r1 - 55296) * 1024 + (r2 - 56320) + 65536
          else ReplacementChar)"

text \<open>
  The width of the UTF-8 encoding that a byte sequence starts with, by the tables of
  unicode/utf8; 0 when the bytes are not such an encoding.
\<close>

definition cont_byte :: "nat \<Rightarrow> nat \<Rightarrow> string \<Rightarrow> nat \<Rightarrow> bool" where
  "cont_byte lo hi s i = (i < length s \<and> lo \<le> (of_char (s ! i) :: nat) \<and> (of_char (s ! i) :: nat) \<le> hi)"

definition utf8_width :: "string \<Rightarrow> nat" where
  "utf8_width s =
     (case s of
        [] \<Rightarrow> 0
      | c # _ \<Rightarrow>
         (let p0 = (of_char c :: nat);
              sz = (if 194 \<le> p0 \<and> p0 \<le> 223 then (2::nat)
                    else if 224 \<le> p0 \<and> p0 \<le> 239 then 3
                    else if 240 \<le> p0 \<and> p0 \<le> 244 then 4 else 0);
              lo = (if p0 = 224 then 160 else if p0 = 240 then 144 else 128);
              hi = (if p0 = 237 then 159 else if p0 = 244 then 143 else 191)
          in if sz = 0 then 0
             else if \<not> cont_byte lo hi s 1 then 0
             else if sz = 2 then 2
             else if \<not> cont_byte 128 191 s 2 then 0
             else if sz = 3 then 3
             else if \<not> cont_byte 128 191 s 3 then 0
             else 4))"

definition escape_byte :: "char \<Rightarrow> char" where
  "escape_byte e =
     (if e = CHR ''b'' then CHR 0x08
      else if e = CHR ''f'' then CHR 0x0C
      else if e = CHR ''n'' then CHR 0x0A
      else if e = CHR ''r'' then CHR 0x0D
      else if e = CHR ''t'' then CHR 0x09
      else e)"

function unquote :: "string \<Rightarrow> string" where
  "unquote [] = []"
| "unquote (c # cs) =
     (if c = CHR 0x5C then
        (case cs of
           [] \<Rightarrow> []
         | e # rest \<Rightarrow>
             if e = CHR ''u'' then
               (case getu4 (c # cs) of
                  None \<Rightarrow> []
                | Some rr \<Rightarrow>
                    if 55296 \<le> rr \<and> rr < 57344 then
                      (if utf16_DecodeRune rr (getu4 (drop 4 rest)) \<noteq> ReplacementChar
                       then EncodeRune (utf16_DecodeRune rr (getu4 (drop 4 rest))) @ unquote (drop 10 rest)
                       else EncodeRune ReplacementChar @ unquote (drop 4 rest))
                    else EncodeRune rr @ unquote (drop 4 rest))
             else escape_byte e # unquote rest)
      else if (of_char c :: nat) < 128 then c # unquote cs
      else if utf8_width (c # cs) = 0 then EncodeRune ReplacementChar @ unquote cs
      else take (utf8_width (c # cs)) (c # cs) @ unquote (drop (utf8_width (c # cs)) (c # cs)))"
  by pat_completeness auto
termination
  by (relation "measure length") (auto simp: utf8_width_def Let_def split: list.splits if_splits)

subsection \<open>The scanner\<close>

text \<open>
  The step functions of the scanner, named as in scanner.go. The states of a literal are
  kept as the literal and the bytes still expected. A frame of the parse stack also holds
  the offset at which its value began and the members or elements read so far.
\<close>

datatype scanstate =
    stateBeginValue
  | stateBeginValueOrEmpty
  | stateBeginStringOrEmpty
  | stateBeginString
  | stateEndValue
  | stateEndTop
  | stateInString
  | stateInStringEsc
  | stateInStringEscU nat
  | stateNeg
  | state1
  | state0
  | stateDot
  | stateDot0
  | stateE
  | stateESign
  | stateE0
  | stateLit string string

datatype frame =
    parseObjectKey nat "(string \<times> string \<times> json) list" string
  | parseObjectValue nat "(string \<times> string \<times> json) list" string
  | parseArrayValue nat "(string \<times> json) list"

record scanner =
  step :: scanstate
  parseState :: "frame list"
  bytes :: nat
  tok :: nat
  endTop :: "(string \<times> json) option"

definition maxNestingDepth :: nat where
  "maxNestingDepth = 10000"

definition scanner_reset :: scanner where
  "scanner_reset = \<lparr>step = stateBeginValue, parseState = [], bytes = 0, tok = 0, endTop = None\<rparr>"

text \<open>A value is complete: it goes to the frame on top of the stack, or ends the input.\<close>

definition put_value :: "string \<Rightarrow> json \<Rightarrow> scanner \<Rightarrow> scanner" where
  "put_value raw v s =
     (case parseState s of
        [] \<Rightarrow> s\<lparr>step := stateEndTop, endTop := Some (raw, v)\<rparr>
      | parseObjectKey st ms k # fs \<Rightarrow>
          s\<lparr>step := stateEndValue,
            parseState := parseObjectKey st ms (case v of JString k' \<Rightarrow> k' | _ \<Rightarrow> []) # fs\<rparr>
      | parseObjectValue st ms k # fs \<Rightarrow>
          s\<lparr>step := stateEndValue, parseState := parseObjectValue st (ms @ [(k, raw, v)]) k # fs\<rparr>
      | parseArrayValue st es # fs \<Rightarrow>
          s\<lparr>step := stateEndValue, parseState := parseArrayValue st (es @ [(raw, v)]) # fs\<rparr>)"

definition pushParseState :: "char \<Rightarrow> frame \<Rightarrow> scanstate \<Rightarrow> scanner \<Rightarrow> error + scanner" where
  "pushParseState c f successState s =
     (if length (parseState s) + 1 \<le> maxNestingDepth
      then Inr (s\<lparr>parseState := f # parseState s, step := successState\<rparr>)
      else Inl (scan_error c ''exceeded max depth''))"

definition stateEndValue_fn :: "string \<Rightarrow> scanner \<Rightarrow> char \<Rightarrow> error + scanner" where
  "stateEndValue_fn data s c =
     (case parseState s of
        [] \<Rightarrow>
          if isSpace c then Inr (s\<lparr>step := stateEndTop\<rparr>)
          else Inl (scan_error c ''after top-level value'')
      | f # fs \<Rightarrow>
          if isSpace c then Inr (s\<lparr>step := stateEndValue\<rparr>)
          else
            (case f of
               parseObjectKey st ms k \<Rightarrow>
                 if c = CHR '':'' then
                   Inr (s\<lparr>parseState := parseObjectValue st ms k # fs, step := stateBeginValue\<rparr>)
                 else Inl (scan_error c ''after object key'')
             | parseObjectValue st ms k \<Rightarrow>
                 if c = CHR '','' then
                   Inr (s\<lparr>parseState := parseObjectKey st ms [] # fs, step := stateBeginString\<rparr>)
                 else if c = CHR ''}'' then
                   Inr (put_value (slice data st (bytes s + 1)) (JObject ms) (s\<lparr>parseState := fs\<rparr>))
                 else Inl (scan_error c ''after object key:value pair'')
             | parseArrayValue st es \<Rightarrow>
                 if c = CHR '','' then Inr (s\<lparr>step := stateBeginValue\<rparr>)
                 else if c = CHR '']'' then
                   Inr (put_value (slice data st (bytes s + 1)) (JArray es) (s\<lparr>parseState := fs\<rparr>))
                 else Inl (scan_error c ''after array element'')))"

definition stateBeginValue_fn :: "scanner \<Rightarrow> char \<Rightarrow> error + scanner" where
  "stateBeginValue_fn s c =
     (if isSpace c then Inr s
      else if c = CHR ''{'' then
        pushParseState c (parseObjectKey (bytes s) [] []) stateBeginStringOrEmpty s
      else if c = CHR ''['' then
        pushParseState c (parseArrayValue (bytes s) []) stateBeginValueOrEmpty s
      else if c = CHR 0x22 then Inr (s\<lparr>step := stateInString, tok := bytes s\<rparr>)
      else if c = CHR ''-'' then Inr (s\<lparr>step := stateNeg, tok := bytes s\<rparr>)
      else if c = CHR ''0'' then Inr (s\<lparr>step := state0, tok := bytes s\<rparr>)
      else if c = CHR ''t'' then Inr (s\<lparr>step := stateLit ''true'' ''rue'', tok := bytes s\<rparr>)
      else if c = CHR ''f'' then Inr (s\<lparr>step := stateLit ''false'' ''alse'', tok := bytes s\<rparr>)
      else if c = CHR ''n'' then Inr (s\<lparr>step := stateLit ''null'' ''ull'', tok := bytes s\<rparr>)
      else if isDigit c then Inr (s\<lparr>step := state1, tok := bytes s\<rparr>)
      else Inl (scan_error c ''looking for beginning of value''))"

definition stateBeginString_fn :: "scanner \<Rightarrow> char \<Rightarrow> error + scanner" where
  "stateBeginString_fn s c =
     (if isSpace c then Inr s
      else if c = CHR 0x22 then Inr (s\<lparr>step := stateInString, tok := bytes s\<rparr>)
      else Inl (scan_error c ''looking for beginning of object key string''))"

text \<open>The end of a number is seen at the byte that follows it.\<close>

definition end_number :: "string \<Rightarrow> scanner \<Rightarrow> char \<Rightarrow> error + scanner" where
  "end_number data s c =
     stateEndValue_fn data
       (put_value (slice data (tok s) (bytes s)) (JNumber (slice data (tok s) (bytes s))) s) c"

definition state0_fn :: "string \<Rightarrow> scanner \<Rightarrow> char \<Rightarrow> error + scanner" where
  "state0_fn data s c =
     (if c = CHR ''.'' then Inr (s\<lparr>step := stateDot\<rparr>)
      else if c = CHR ''e'' \<or> c = CHR ''E'' then Inr (s\<lparr>step := stateE\<rparr>)
      else end_number data s c)"

definition stateESign_fn :: "scanner \<Rightarrow> char \<Rightarrow> error + scanner" where
  "stateESign_fn s c =
     (if isDigit c then Inr (s\<lparr>step := stateE0\<rparr>)
      else Inl (scan_error c ''in exponent of numeric literal''))"

definition literal_value :: "string \<Rightarrow> json" where
  "literal_value name =
     (if name = ''true'' then JBool True else if name = ''false'' then JBool False else JNull)"

definition scan_step :: "string \<Rightarrow> scanner \<Rightarrow> char \<Rightarrow> error + scanner" where
  "scan_step data s c =
     (case step s of
        stateBeginValue \<Rightarrow> stateBeginValue_fn s c
      | stateBeginValueOrEmpty \<Rightarrow>
          if isSpace c then Inr s
          else if c = CHR '']'' then stateEndValue_fn data s c
          else stateBeginValue_fn s c
      | stateBeginStringOrEmpty \<Rightarrow>
          if isSpace c then Inr s
          else if c = CHR ''}'' then
            (case parseState s of
               parseObjectKey st ms k # fs \<Rightarrow>
                 stateEndValue_fn data (s\<lparr>parseState := parseObjectValue st ms k # fs\<rparr>) c
             | _ \<Rightarrow> stateEndValue_fn data s c)
          else stateBeginString_fn s c
      | stateBeginString \<Rightarrow> stateBeginString_fn s c
      | stateEndValue \<Rightarrow> stateEndValue_fn data s c
      | stateEndTop \<Rightarrow>
          if isSpace c then Inr s else Inl (scan_error c ''after top-level value'')
      | stateInString \<Rightarrow>
          if c = CHR 0x22 then
            Inr (put_value (slice data (tok s) (bytes s + 1))
                   (JString (unquote (slice data (tok s + 1) (bytes s)))) s)
          else if c = CHR 0x5C then Inr (s\<lparr>step := stateInStringEsc\<rparr>)
          else if (of_char c :: nat) < 32 then Inl (scan_error c ''in string literal'')
          else Inr s
      | stateInStringEsc \<Rightarrow>
          if c \<in> set ''bfnrt'' \<or> c = CHR 0x5C \<or> c = CHR ''/'' \<or> c = CHR 0x22
          then Inr (s\<lparr>step := stateInString\<rparr>)
          else if c = CHR ''u'' then Inr (s\<lparr>step := stateInStringEscU 0\<rparr>)
          else Inl (scan_error c ''in string escape code'')
      | stateInStringEscU n \<Rightarrow>
          if isHex c then
            Inr (s\<lparr>step := (if n = 3 then stateInString else stateInStringEscU (n + 1))\<rparr>)
          else Inl (scan_error c ([CHR ''i'', CHR ''n'', CHR '' '', CHR 0x5C] @
                                  ''u hexadecimal character escape''))
      | stateNeg \<Rightarrow>
          if c = CHR ''0'' then Inr (s\<lparr>step := state0\<rparr>)
          else if isDigit c then Inr (s\<lparr>step := state1\<rparr>)
          else Inl (scan_error c ''in numeric literal'')
      | state1 \<Rightarrow> if isDigit c then Inr s else state0_fn data s c
      | state0 \<Rightarrow> state0_fn data s c
      | stateDot \<Rightarrow>
          if isDigit c then Inr (s\<lparr>step := stateDot0\<rparr>)
          else Inl (scan_error c ''after decimal point in numeric literal'')
      | stateDot0 \<Rightarrow>
          if isDigit c then Inr s
          else if c = CHR ''e'' \<or> c = CHR ''E'' then Inr (s\<lparr>step := stateE\<rparr>)
          else end_number data s c
      | stateE \<Rightarrow>
          if c = CHR ''+'' \<or> c = CHR ''-'' then Inr (s\<lparr>step := stateESign\<rparr>)
          else stateESign_fn s c
      | stateESign \<Rightarrow> stateESign_fn s c
      | stateE0 \<Rightarrow> if isDigit c then Inr s else end_number data s c
      | stateLit name expect \<Rightarrow>
          (case expect of
             [] \<Rightarrow> stateEndValue_fn data s c
           | r # rs \<Rightarrow>
               if c = r then
                 (if rs = [] then
                    Inr (put_value (slice data (tok s) (bytes s + 1)) (literal_value name) s)
                  else Inr (s\<lparr>step := stateLit name rs\<rparr>))
               else Inl (scan_error c (''in literal '' @ name @ '' (expecting '' @
                                       [CHR 0x27, r, CHR 0x27] @ '')''))))"

text \<open>\<open>checkValid\<close>: every byte goes through the step function; the first error stops it.\<close>

fun scan_bytes :: "string \<Rightarrow> scanner \<Rightarrow> string \<Rightarrow> error + scanner" where
  "scan_bytes data s [] = Inr s"
| "scan_bytes data s (c # cs) =
     (case scan_step data s c of
        Inl err \<Rightarrow> Inl err
      | Inr s' \<Rightarrow> scan_bytes data (s'\<lparr>bytes := bytes s' + 1\<rparr>) cs)"

text \<open>
  \<open>eof\<close>: unless the top-level value is complete, the scanner is stepped once more with a
  space, which ends a number and leaves the error of any state that rejects a space.
\<close>

definition eof :: "string \<Rightarrow> scanner \<Rightarrow> error + (string \<times> json)" where
  "eof data s =
     (case endTop s of
        Some rv \<Rightarrow> Inr rv
      | None \<Rightarrow>
         (case scan_step data s (CHR '' '') of
            Inl err \<Rightarrow> Inl err
          | Inr s' \<Rightarrow>
             (case endTop s' of
                Some rv \<Rightarrow> Inr rv
              | None \<Rightarrow> Inl (SyntaxError ''unexpected end of JSON input''))))"

definition checkValid :: "string \<Rightarrow> error + (string \<times> json)" where
  "checkValid data =
     (case scan_bytes data scanner_reset data of
        Inl err \<Rightarrow> Inl err
      | Inr s \<Rightarrow> eof data s)"

section \<open>Decoding into Go values\<close>

datatype gval =
    VInt int
  | VString string
  | VBool bool
  | VRaw "string option"
  | VStruct "gval list"
  | VSlice "gval list option"
  | VPtr "gval option"

fun zero :: "gtype \<Rightarrow> gval" where
  "zero TInt = VInt 0"
| "zero TString = VString []"
| "zero TBool = VBool False"
| "zero TRawMessage = VRaw None"
| "zero (TStruct pkg name fs) = VStruct (map (\<lambda>f. zero (snd f)) fs)"
| "zero (TSlice t) = VSlice None"
| "zero (TPtr t) = VPtr None"
| "zero (TNamed name t) = zero t"

text \<open>
  The folded form of a key, by which a struct field is found when no field has the exact
  name: ASCII letters in upper case, the Kelvin sign as K and the long s as S. Every other
  rune is kept, which is its folded form as far as it can meet an ASCII field name.
\<close>

fun foldName :: "string \<Rightarrow> string" where
  "foldName [] = []"
| "foldName (c # cs) =
     (let n = (of_char c :: nat) in
      if 97 \<le> n \<and> n \<le> 122 then char_of (n - 32) # foldName cs
      else if n = 226 \<and> take 2 cs = [CHR 0x84, CHR 0xAA] then CHR ''K'' # foldName (drop 2 cs)
      else if n = 197 \<and> take 1 cs = [CHR 0xBF] then CHR ''S'' # foldName (drop 1 cs)
      else c # foldName cs)"

fun index_where :: "('a \<Rightarrow> bool) \<Rightarrow> 'a list \<Rightarrow> nat option" where
  "index_where P [] = None"
| "index_where P (x # xs) =
     (if P x then Some 0 else map_option Suc (index_where P xs))"

definition find_field :: "(string \<times> gtype) list \<Rightarrow> string \<Rightarrow> nat option" where
  "find_field fs key =
     (case index_where (\<lambda>f. fst f = key) fs of
        Some i \<Rightarrow> Some i
      | None \<Rightarrow> index_where (\<lambda>f. foldName (fst f) = foldName key) fs)"

text \<open>
  strconv.ParseInt in base 10 and 64 bits on a JSON number: a literal with a fraction or
  an exponent, or outside of the int64 range, is refused.
\<close>

fun decimal :: "nat \<Rightarrow> string \<Rightarrow> nat" where
  "decimal acc [] = acc"
| "decimal acc (c # cs) = decimal (acc * 10 + ((of_char c :: nat) - 48)) cs"

definition ParseInt :: "string \<Rightarrow> int option" where
  "ParseInt lit =
     (let neg = (take 1 lit = ''-'');
          ds = (if neg then drop 1 lit else lit);
          n = (if neg then - int (decimal 0 ds) else int (decimal 0 ds))
      in if ds \<noteq> [] \<and> list_all isDigit ds \<and> - (2 ^ 63) \<le> n \<and> n < 2 ^ 63
         then Some n else None)"

fun join :: "string \<Rightarrow> string list \<Rightarrow> string" where
  "join sep [] = []"
| "join sep [x] = x"
| "join sep (x # y # ys) = x @ sep @ join sep (y # ys)"

text \<open>The error context of the decoder: the struct being filled and the path of fields.\<close>

definition type_error :: "string \<times> string list \<Rightarrow> string \<Rightarrow> gtype \<Rightarrow> error" where
  "type_error ctx v t = UnmarshalTypeError v t (fst ctx) (join ''.'' (snd ctx))"

definition saveError :: "error option \<Rightarrow> error option \<Rightarrow> error option" where
  "saveError saved err = (case saved of None \<Rightarrow> err | Some e \<Rightarrow> Some e)"

text \<open>
  \<open>decode ctx ety ty raw j v\<close> stores the JSON value \<open>j\<close>, read from the bytes \<open>raw\<close>, into the
  Go value \<open>v\<close> of type \<open>ty\<close>, as \<open>value\<close>, \<open>array\<close>, \<open>object\<close> and \<open>literalStore\<close> of decode.go
  do; \<open>ety\<close> is the type named in an error. A value of the wrong kind leaves \<open>v\<close> as it is
  and gives an error, of which the first is kept while decoding goes on. The elements of
  a slice beyond its length are taken to be zero.
\<close>

fun decode :: "string \<times> string list \<Rightarrow> gtype \<Rightarrow> gtype \<Rightarrow> string \<Rightarrow> json \<Rightarrow> gval \<Rightarrow> gval \<times> error option"
  and decode_elems :: "string \<times> string list \<Rightarrow> gtype \<Rightarrow> (string \<times> json) list \<Rightarrow> gval list \<Rightarrow> gval list \<times> error option"
  and decode_members :: "string \<Rightarrow> string list \<Rightarrow> (string \<times> gtype) list \<Rightarrow> (string \<times> string \<times> json) list \<Rightarrow> gval list \<Rightarrow> gval list \<times> error option"
where
  "decode ctx ety (TNamed name t) raw j v = decode ctx ety t raw j v"
| "decode ctx ety TRawMessage raw j v = (VRaw (Some raw), None)"
| "decode ctx ety (TPtr t) raw j v =
     (case j of
        JNull \<Rightarrow> (VPtr None, None)
      | _ \<Rightarrow>
         (case decode ctx t t raw j (case v of VPtr (Some x) \<Rightarrow> x | _ \<Rightarrow> zero t) of
            (x, err) \<Rightarrow> (VPtr (Some x), err)))"
| "decode ctx ety TInt raw j v =
     (case j of
        JNull \<Rightarrow> (v, None)
      | JBool b \<Rightarrow> (v, Some (type_error ctx ''bool'' ety))
      | JString s \<Rightarrow> (v, Some (type_error ctx ''string'' ety))
      | JNumber lit \<Rightarrow>
         (case ParseInt lit of
            Some n \<Rightarrow> (VInt n, None)
          | None \<Rightarrow> (v, Some (type_error ctx (''number '' @ lit) ety)))
      | JArray es \<Rightarrow> (v, Some (type_error ctx ''array'' ety))
      | JObject ms \<Rightarrow> (v, Some (type_error ctx ''object'' ety)))"
| "decode ctx ety TString raw j v =
     (case j of
        JNull \<Rightarrow> (v, None)
      | JBool b \<Rightarrow> (v, Some (type_error ctx ''bool'' ety))
      | JString s \<Rightarrow> (VString s, None)
      | JNumber lit \<Rightarrow> (v, Some (type_error ctx ''number'' ety))
      | JArray es \<Rightarrow> (v, Some (type_error ctx ''array'' ety))
      | JObject ms \<Rightarrow> (v, Some (type_error ctx ''object'' ety)))"
| "decode ctx ety TBool raw j v =
     (case j of
        JNull \<Rightarrow> (v, None)
      | JBool b \<Rightarrow> (VBool b, None)
      | JString s \<Rightarrow> (v, Some (type_error ctx ''string'' ety))
      | JNumber lit \<Rightarrow> (v, Some (type_error ctx ''number'' ety))
      | JArray es \<Rightarrow> (v, Some (type_error ctx ''array'' ety))
      | JObject ms \<Rightarrow> (v, Some (type_error ctx ''object'' ety)))"
| "decode ctx ety (TSlice t) raw j v =
     (case j of
        JNull \<Rightarrow> (VSlice None, None)
      | JBool b \<Rightarrow> (v, Some (type_error ctx ''bool'' ety))
      | JString s \<Rightarrow> (v, Some (type_error ctx ''string'' ety))
      | JNumber lit \<Rightarrow> (v, Some (type_error ctx ''number'' ety))
      | JArray es \<Rightarrow>
         (case decode_elems ctx t es (case v of VSlice (Some xs) \<Rightarrow> xs | _ \<Rightarrow> []) of
            (xs, err) \<Rightarrow> (VSlice (Some xs), err))
      | JObject ms \<Rightarrow> (v, Some (type_error ctx ''object'' ety)))"
| "decode ctx ety (TStruct pkg name fs) raw j v =
     (case j of
        JNull \<Rightarrow> (v, None)
      | JBool b \<Rightarrow> (v, Some (type_error ctx ''bool'' ety))
      | JString s \<Rightarrow> (v, Some (type_error ctx ''string'' ety))
      | JNumber lit \<Rightarrow> (v, Some (type_error ctx ''number'' ety))
      | JArray es \<Rightarrow> (v, Some (type_error ctx ''array'' ety))
      | JObject ms \<Rightarrow>
         (case decode_members name (snd ctx) fs ms
                 (case v of VStruct xs \<Rightarrow> xs | _ \<Rightarrow> map (\<lambda>f. zero (snd f)) fs) of
            (xs, err) \<Rightarrow> (VStruct xs, err)))"
| "decode_elems ctx t [] olds = ([], None)"
| "decode_elems ctx t (e # es) olds =
     (case decode ctx t t (fst e) (snd e) (case olds of [] \<Rightarrow> zero t | old # _ \<Rightarrow> old) of
        (x, err1) \<Rightarrow>
          (case decode_elems ctx t es (tl olds) of
             (xs, err2) \<Rightarrow> (x # xs, saveError err1 err2)))"
| "decode_members sname stack fs [] vals = (vals, None)"
| "decode_members sname stack fs (m # ms) vals =
     (case find_field fs (fst m) of
        None \<Rightarrow> decode_members sname stack fs ms vals
      | Some i \<Rightarrow>
         (case decode (sname, stack @ [fst (fs ! i)]) (snd (fs ! i)) (snd (fs ! i))
                 (fst (snd m)) (snd (snd m))
                 (if i < length vals then vals ! i else zero (snd (fs ! i))) of
            (x, err1) \<Rightarrow>
              (case decode_members sname stack fs ms (vals[i := x]) of
                 (vals', err2) \<Rightarrow> (vals', saveError err1 err2))))"

text \<open>
  What a caller passes as \<open>ptr any\<close>: the untyped nil, a value that is not a pointer, a nil
  pointer, or a pointer to a variable of some type with its current value.
\<close>

datatype target =
    UntypedNil
  | NonPointer gtype gval
  | NilPointer gtype
  | Pointer gtype gval

definition json_Unmarshal :: "string \<Rightarrow> target \<Rightarrow> error option \<times> target" where
  "json_Unmarshal data v =
     (case checkValid data of
        Inl err \<Rightarrow> (Some err, v)
      | Inr rj \<Rightarrow>
         (case v of
            UntypedNil \<Rightarrow> (Some (InvalidUnmarshalError ''json: Unmarshal(nil)''), v)
          | NonPointer t x \<Rightarrow>
              (Some (InvalidUnmarshalError (''json: Unmarshal(non-pointer '' @ type_String t @ '')'')), v)
          | NilPointer t \<Rightarrow>
              (Some (InvalidUnmarshalError (''json: Unmarshal(nil *'' @ type_String t @ '')'')), v)
          | Pointer t x \<Rightarrow>
              (case decode ([], []) t t (fst rj) (snd rj) x of
                 (x', err) \<Rightarrow> (err, Pointer t x'))))"

section \<open>The response decoder\<close>

record Locations =
  Line :: int
  Column :: int

record ErrorM =
  Message :: string
  Locations :: "Locations list"

type_synonym Errors = "ErrorM list"

record Wrapper =
  Data :: string
  Errors :: Errors

definition Locations_type :: gtype where
  "Locations_type = TStruct ''bitquery'' ''Locations'' [(''line'', TInt), (''column'', TInt)]"

definition ErrorM_type :: gtype where
  "ErrorM_type =
     TStruct ''bitquery'' ''ErrorM'' [(''message'', TString), (''locations'', TSlice Locations_type)]"

definition Errors_type :: gtype where
  "Errors_type = TNamed ''bitquery.Errors'' (TSlice ErrorM_type)"

definition Wrapper_type :: gtype where
  "Wrapper_type = TStruct ''bitquery'' ''Wrapper'' [(''data'', TRawMessage), (''errors'', Errors_type)]"

text \<open>Reading the records back from the decoder's values; a nil slice has no elements.\<close>

definition int_of :: "gval \<Rightarrow> int" where
  "int_of v = (case v of VInt n \<Rightarrow> n | _ \<Rightarrow> 0)"

definition string_of :: "gval \<Rightarrow> string" where
  "string_of v = (case v of VString s \<Rightarrow> s | _ \<Rightarrow> [])"

definition bytes_of :: "gval \<Rightarrow> string" where
  "bytes_of v = (case v of VRaw (Some b) \<Rightarrow> b | _ \<Rightarrow> [])"

definition elems_of :: "gval \<Rightarrow> gval list" where
  "elems_of v = (case v of VSlice (Some xs) \<Rightarrow> xs | _ \<Rightarrow> [])"

definition field :: "gval \<Rightarrow> nat \<Rightarrow> gval" where
  "field v i = (case v of VStruct xs \<Rightarrow> (if i < length xs then xs ! i else VInt 0) | _ \<Rightarrow> VInt 0)"

definition to_Locations :: "gval \<Rightarrow> Locations" where
  "to_Locations v = \<lparr>Line = int_of (field v 0), Column = int_of (field v 1)\<rparr>"

definition to_ErrorM :: "gval \<Rightarrow> ErrorM" where
  "to_ErrorM v =
     \<lparr>Message = string_of (field v 0), Locations = map to_Locations (elems_of (field v 1))\<rparr>"

definition to_Wrapper :: "gval \<Rightarrow> Wrapper" where
  "to_Wrapper v = \<lparr>Data = bytes_of (field v 0), Errors = map to_ErrorM (elems_of (field v 1))\<rparr>"

text \<open>\<open>var wrapped Wrapper; err = json.Unmarshal(resp, &wrapped)\<close>\<close>

definition Unmarshal_Wrapper :: "string \<Rightarrow> error option \<times> Wrapper" where
  "Unmarshal_Wrapper resp =
     (case json_Unmarshal resp (Pointer Wrapper_type (zero Wrapper_type)) of
        (err, Pointer t v) \<Rightarrow> (err, to_Wrapper v)
      | (err, _) \<Rightarrow> (err, to_Wrapper (zero Wrapper_type)))"

definition ErrorM_String :: "ErrorM \<Rightarrow> string" where
  "ErrorM_String e = Message e"

text \<open>
  The verb \<open>%v\<close> on a value of type \<open>Errors\<close>: the elements between brackets with a space
  between them, each printed by its \<open>String\<close> method.
\<close>

definition fmt_Errors :: "Errors \<Rightarrow> string" where
  "fmt_Errors es = ''['' @ join '' '' (map ErrorM_String es) @ '']''"

text \<open>The text looked for in the error of the envelope parse, line 72.\<close>

definition invalid_character_lt :: string where
  "invalid_character_lt = ''invalid character '' @ [CHR 0x27, CHR ''<'', CHR 0x27]"

text \<open>
  \<open>Unmarshal\<close>, lines 64 to 85. The result is the error returned, if any, and the caller's
  target after the call.
\<close>

definition Unmarshal :: "'v env \<Rightarrow> string \<Rightarrow> 'v BitqueryModel \<Rightarrow> target \<Rightarrow> event list \<Rightarrow> (error option \<times> target) \<times> event list" where
  "Unmarshal E apikey x ptr w =
     (case Do E apikey x w of
        (Inl err, w') \<Rightarrow> ((Some err, ptr), w')
      | (Inr resp, w') \<Rightarrow>
         (case Unmarshal_Wrapper resp of
            (Some err, wrapped) \<Rightarrow>
              if strings_Contains (Error err) invalid_character_lt
              then ((Some (errorString (''resp: '' @ resp)), ptr), w')
              else (json_Unmarshal resp ptr, w')
          | (None, wrapped) \<Rightarrow>
              if length (Errors wrapped) \<noteq> 0
              then ((Some (errorString (''query error: '' @ fmt_Errors (Errors wrapped))), ptr), w')
              else (json_Unmarshal (Data wrapped) ptr, w')))"

section \<open>A mock server and a caller\<close>

text \<open>
  json.Marshal on the request object of \<open>Do\<close> when the variables are the empty map, for
  which the type \<open>unit\<close> stands: the keys in sorted order, each string between quotes with
  the escapes of the encoder (those for HTML included), the empty map as \<open>{}\<close>.
\<close>

definition escape_ascii :: "char \<Rightarrow> string" where
  "escape_ascii c =
     (let n = (of_char c :: nat) in
      if 32 \<le> n \<and> c \<noteq> CHR 0x22 \<and> c \<noteq> CHR 0x5C \<and> c \<noteq> CHR ''<'' \<and> c \<noteq> CHR ''>'' \<and> c \<noteq> CHR ''&''
      then [c]
      else if c = CHR 0x5C \<or> c = CHR 0x22 then [CHR 0x5C, c]
      else if n = 8 then [CHR 0x5C, CHR ''b'']
      else if n = 12 then [CHR 0x5C, CHR ''f'']
      else if n = 10 then [CHR 0x5C, CHR ''n'']
      else if n = 13 then [CHR 0x5C, CHR ''r'']
      else if n = 9 then [CHR 0x5C, CHR ''t'']
      else [CHR 0x5C, CHR ''u'', CHR ''0'', CHR ''0'', hexdigit (n div 16), hexdigit n])"

function appendString :: "string \<Rightarrow> string" where
  "appendString [] = []"
| "appendString (c # cs) =
     (if (of_char c :: nat) < 128 then escape_ascii c @ appendString cs
      else if utf8_width (c # cs) = 0 then [CHR 0x5C] @ ''ufffd'' @ appendString cs
      else if take 3 (c # cs) = [CHR 0xE2, CHR 0x80, CHR 0xA8]
        then [CHR 0x5C] @ ''u2028'' @ appendString (drop 3 (c # cs))
      else if take 3 (c # cs) = [CHR 0xE2, CHR 0x80, CHR 0xA9]
        then [CHR 0x5C] @ ''u2029'' @ appendString (drop 3 (c # cs))
      else take (utf8_width (c # cs)) (c # cs) @ appendString (drop (utf8_width (c # cs)) (c # cs)))"
  by pat_completeness auto
termination
  by (relation "measure length") (auto simp: utf8_width_def Let_def split: list.splits if_splits)

definition quoted :: "string \<Rightarrow> string" where
  "quoted s = [CHR 0x22] @ appendString s @ [CHR 0x22]"

fun bytes_less :: "string \<Rightarrow> string \<Rightarrow> bool" where
  "bytes_less [] [] = False"
| "bytes_less [] (y # ys) = True"
| "bytes_less (x # xs) [] = False"
| "bytes_less (x # xs) (y # ys) =
     ((of_char x :: nat) < of_char y \<or> (x = y \<and> bytes_less xs ys))"

fun insert_key :: "string \<times> 'a \<Rightarrow> (string \<times> 'a) list \<Rightarrow> (string \<times> 'a) list" where
  "insert_key kv [] = [kv]"
| "insert_key kv (e # es) =
     (if bytes_less (fst kv) (fst e) then kv # e # es else e # insert_key kv es)"

definition sort_keys :: "(string \<times> 'a) list \<Rightarrow> (string \<times> 'a) list" where
  "sort_keys m = foldr insert_key m []"

definition marshal_any :: "unit any \<Rightarrow> string" where
  "marshal_any v = (case v of AnyString s \<Rightarrow> quoted s | AnyVars u \<Rightarrow> ''{}'')"

definition marshal_map :: "(string \<times> unit any) list \<Rightarrow> error + string" where
  "marshal_map m =
     Inr (''{'' @ join '','' (map (\<lambda>kv. quoted (fst kv) @ '':'' @ marshal_any (snd kv)) (sort_keys m))
          @ ''}'')"

text \<open>
  A server that answers every request with status 200 and a fixed body, and a server that is
  not reached.
\<close>

definition mock_server :: "string \<Rightarrow> unit env" where
  "mock_server b =
     \<lparr>json_Marshal = marshal_map,
      url_Parse = (\<lambda>u. None),
      client_Do = (\<lambda>r. Inr \<lparr>StatusCode = 200, Body = \<lparr>content = b, read_err = None\<rparr>\<rparr>)\<rparr>"

definition unreachable_server :: "unit env" where
  "unreachable_server =
     \<lparr>json_Marshal = marshal_map,
      url_Parse = (\<lambda>u. None),
      client_Do = (\<lambda>r. Inl (externalError ''dial tcp: connection refused''))\<rparr>"

definition Endpoint1 :: string where
  "Endpoint1 = ''https://graphql.bitquery.io''"

definition Endpoint2 :: string where
  "Endpoint2 = ''https://streaming.bitquery.io/graphql''"

definition query1 :: "unit BitqueryModel" where
  "query1 = \<lparr>ToMap = (), Query = ''{ ethereum { blocks { count } } }'', Endpoint = Endpoint1\<rparr>"

text \<open>The caller's target \<open>struct { X int `json:"x"` }\<close>, a slice of int, and some bodies.\<close>

definition T_type :: gtype where
  "T_type = TStruct ''main'' ''T'' [(''x'', TInt)]"

definition T_target :: "int \<Rightarrow> target" where
  "T_target n = Pointer T_type (VStruct [VInt n])"

definition ints_target :: "int list option \<Rightarrow> target" where
  "ints_target xs = Pointer (TSlice TInt) (VSlice (map_option (map VInt) xs))"

definition body_query1 :: string where
  "body_query1 = ''{\"query\":\"{ ethereum { blocks { count } } }\",\"variables\":{}}''"

definition body_array :: string where
  "body_array = ''[1, 2]''"

definition body_bare :: string where
  "body_bare = ''{\"x\": 7}''"

definition body_enveloped :: string where
  "body_enveloped = ''{\"data\": {\"x\": 1}, \"errors\": []}''"

definition body_errors :: string where
  "body_errors = ''{\"data\": null, \"errors\": [{\"message\":\"bad field\"}]}''"

definition body_html :: string where
  "body_html = ''<html>''"

definition body_bad_errors :: string where
  "body_bad_errors = ''{\"x\": 7, \"errors\": \"none\"}''"

definition body_Data :: string where
  "body_Data = ''{\"Data\": {\"x\": 1}}''"



text \<open>The requests among the events of a call.\<close>

fun sent :: "event list \<Rightarrow> request list" where
  "sent [] = []"
| "sent (ClientDo r # evs) = r # sent evs"
| "sent (BodyClose b # evs) = sent evs"


text \<open>A server that answers with status 500, and the keys of a body that is an object.\<close>

definition server_error :: "unit env" where
  "server_error =
     \<lparr>json_Marshal = marshal_map,
      url_Parse = (\<lambda>u. None),
      client_Do = (\<lambda>r. Inr \<lparr>StatusCode = 500,
                              Body = \<lparr>content = ''Internal Server Error'', read_err = None\<rparr>\<rparr>)\<rparr>"

definition object_keys :: "string \<Rightarrow> string list option" where
  "object_keys data =
     (case checkValid data of
        Inr rj \<Rightarrow> (case snd rj of JObject ms \<Rightarrow> Some (map fst ms) | _ \<Rightarrow> None)
      | Inl err \<Rightarrow> None)"

section \<open>Auxiliary facts\<close>

lemma index_where_None: "index_where P xs = None \<longleftrightarrow> (\<forall>x\<in>set xs. \<not> P x)"
  by (induction xs) auto

lemma find_field_None: "find_field fs k = None \<longleftrightarrow> (\<forall>f\<in>set fs. foldName (fst f) \<noteq> foldName k)"
proof
  assume "find_field fs k = None"
  then have "index_where (\<lambda>f. foldName (fst f) = foldName k) fs = None"
    by (simp add: find_field_def split: option.splits)
  then show "\<forall>f\<in>set fs. foldName (fst f) \<noteq> foldName k" by (simp add: index_where_None)
next
  assume a: "\<forall>f\<in>set fs. foldName (fst f) \<noteq> foldName k"
  then have "\<forall>f\<in>set fs. fst f \<noteq> k" by auto
  then have "index_where (\<lambda>f. fst f = k) fs = None" by (simp add: index_where_None)
  moreover have "index_where (\<lambda>f. foldName (fst f) = foldName k) fs = None"
    using a by (simp add: index_where_None)
  ultimately show "find_field fs k = None" by (simp add: find_field_def)
qed

lemma decode_members_no_match:
  "\<forall>m\<in>set ms. find_field fs (fst m) = None \<Longrightarrow> decode_members sname stack fs ms vals = (vals, None)"
  by (induction ms) simp_all



lemma Unmarshal_response:
  "fst (Do E apikey x w) = Inr resp \<Longrightarrow>
   Unmarshal E apikey x ptr w =
     ((case Unmarshal_Wrapper resp of
         (Some err, wrapped) \<Rightarrow>
           if strings_Contains (Error err) invalid_character_lt
           then (Some (errorString (''resp: '' @ resp)), ptr)
           else json_Unmarshal resp ptr
       | (None, wrapped) \<Rightarrow>
           if length (Errors wrapped) \<noteq> 0
           then (Some (errorString (''query error: '' @ fmt_Errors (Errors wrapped))), ptr)
           else json_Unmarshal (Data wrapped) ptr), snd (Do E apikey x w))"
  by (cases "Do E apikey x w") (auto simp: Unmarshal_def split: prod.splits option.splits)

lemma foldName_data: "foldName ''data'' = ''DATA''"
  by code_simp
lemma foldName_errors: "foldName ''errors'' = ''ERRORS''"
  by code_simp
lemma to_Wrapper_zero: "to_Wrapper (zero Wrapper_type) = \<lparr>Data = [], Errors = []\<rparr>"
  by code_simp
lemma zero_Wrapper: "zero Wrapper_type = VStruct [VRaw None, VSlice None]"
  by code_simp

lemma Unmarshal_Wrapper_no_fields:
  assumes "checkValid resp = Inr (raw, JObject ms)"
    and "\<forall>m\<in>set ms. foldName (fst m) \<noteq> ''DATA'' \<and> foldName (fst m) \<noteq> ''ERRORS''"
  shows "Unmarshal_Wrapper resp = (None, \<lparr>Data = [], Errors = []\<rparr>)"
proof -
  have "\<forall>m\<in>set ms. find_field [(''data'', TRawMessage), (''errors'', Errors_type)] (fst m) = None"
  proof
    fix m assume "m \<in> set ms"
    with assms(2) have "foldName (fst m) \<noteq> ''DATA''" "foldName (fst m) \<noteq> ''ERRORS''" by auto
    then show "find_field [(''data'', TRawMessage), (''errors'', Errors_type)] (fst m) = None"
      unfolding find_field_None
      by (auto simp del: foldName.simps simp add: foldName_data foldName_errors)
  qed
  then have dm: "decode_members ''Wrapper'' [] [(''data'', TRawMessage), (''errors'', Errors_type)] ms
               [VRaw None, VSlice None] = ([VRaw None, VSlice None], None)"
    by (rule decode_members_no_match)
  have "decode ([], []) Wrapper_type Wrapper_type raw (JObject ms) (VStruct [VRaw None, VSlice None])
          = (VStruct [VRaw None, VSlice None], None)"
    unfolding Wrapper_type_def by (simp add: dm)
  then have "json_Unmarshal resp (Pointer Wrapper_type (zero Wrapper_type)) =
               (None, Pointer Wrapper_type (zero Wrapper_type))"
    using assms(1) by (simp add: json_Unmarshal_def zero_Wrapper)
  then show ?thesis by (simp add: Unmarshal_Wrapper_def to_Wrapper_zero)
qed

lemma sublist_join: "x \<in> set xs \<Longrightarrow> sublist x (join sep xs)"
proof (induction sep xs rule: join.induct)
  case (1 sep)
  then show ?case by simp
next
  case (2 sep y)
  then show ?case by simp
next
  case (3 sep a b bs)
  show ?case
  proof (cases "x = a")
    case True
    have "join sep (a # b # bs) = [] @ a @ (sep @ join sep (b # bs))" by simp
    then show ?thesis unfolding sublist_def True by blast
  next
    case False
    with 3 have "sublist x (join sep (b # bs))" by simp
    then obtain ps ss where "join sep (b # bs) = ps @ x @ ss" by (auto simp: sublist_def)
    then have "join sep (a # b # bs) = (a @ sep @ ps) @ x @ ss" by simp
    then show ?thesis unfolding sublist_def by blast
  qed
qed

lemma sent_append: "sent (w @ evs) = sent w @ sent evs"
  by (induction w rule: sent.induct) simp_all

lemma json_Unmarshal_empty:
  "json_Unmarshal [] ptr = (Some (SyntaxError ''unexpected end of JSON input''), ptr)"
  by (simp add: json_Unmarshal_def checkValid_def eof_def scanner_reset_def scan_step_def
      stateBeginValue_fn_def isSpace_def)






lemma canonical_api_key: "CanonicalMIMEHeaderKey ''X-API-KEY'' = ''X-Api-Key''"
  by code_simp

lemma canonical_content_type: "CanonicalMIMEHeaderKey ''Content-Type'' = ''Content-Type''"
  by code_simp

lemma sent_Do:
  assumes "json_Marshal E [(''query'', AnyString (Query x)), (''variables'', AnyVars (ToMap x))] = Inr q"
    and "url_Parse E (Endpoint x) = None"
  shows "sent (snd (Do E apikey x w)) =
           sent w @ [\<lparr>Method = ''POST'', URL = Endpoint x,
                      Header = [(''X-Api-Key'', [apikey]), (''Content-Type'', [''application/json''])],
                      ReqBody = q\<rparr>]"
  using assms
  by (simp add: Do_def http_NewRequest_def Header_Set_def canonical_api_key canonical_content_type
      MethodPost_def io_ReadAll_def sent_append Let_def split: sum.splits option.splits)

lemma Do_marshal_error:
  "json_Marshal E [(''query'', AnyString (Query x)), (''variables'', AnyVars (ToMap x))] = Inl err \<Longrightarrow>
   Do E apikey x w = (Inl err, w)"
  by (simp add: Do_def)

lemma Do_bad_request:
  "json_Marshal E [(''query'', AnyString (Query x)), (''variables'', AnyVars (ToMap x))] = Inr q \<Longrightarrow>
   url_Parse E (Endpoint x) = Some err \<Longrightarrow>
   Do E apikey x w = (Inl (errorString (''bad request: '' @ Error err)), w)"
  by (simp add: Do_def http_NewRequest_def)

lemma marshal_query1:
  "marshal_map [(''query'', AnyString (Query query1)), (''variables'', AnyVars (ToMap query1))] =
     Inr body_query1"
  by code_simp

section \<open>The claims\<close>

text \<open>
  Claim C7. Whenever \<open>Do\<close> fails, \<open>Unmarshal\<close> returns that same error unchanged; nothing is
  parsed or decoded, so the caller's target is as it was, and nothing more happens outside
  than what \<open>Do\<close> did.
\<close>

theorem Unmarshal_propagates_Do_error:
  "fst (Do E apikey x w) = Inl err \<Longrightarrow>
   Unmarshal E apikey x ptr w = ((Some err, ptr), snd (Do E apikey x w))"
  by (cases "Do E apikey x w") (simp add: Unmarshal_def)

text \<open>A server that cannot be reached: the transport error of \<open>Do\<close> is what \<open>Unmarshal\<close> returns.\<close>

theorem Unmarshal_propagates_Do_error_witness:
  "fst (Do unreachable_server ''key'' query1 []) =
     Inl (errorString ''the HTTP request failed with error dial tcp: connection refused'') \<and>
   fst (Unmarshal unreachable_server ''key'' query1 (T_target 0) []) =
     (Some (errorString ''the HTTP request failed with error dial tcp: connection refused''),
      T_target 0)"
proof -
  have d: "fst (Do unreachable_server ''key'' query1 []) =
     Inl (errorString ''the HTTP request failed with error dial tcp: connection refused'')"
    by code_simp
  show ?thesis using d Unmarshal_propagates_Do_error [OF d, of "T_target 0"] by simp
qed

text \<open>
  Claim C2. When the body parses as the envelope and the errors sequence is not empty,
  \<open>Unmarshal\<close> returns an error whose message contains the message of every reported
  error; the data payload is not decoded and the caller's target is as it was.
\<close>

theorem Unmarshal_query_error:
  assumes "fst (Do E apikey x w) = Inr resp"
    and "Unmarshal_Wrapper resp = (None, wrapped)"
    and "Errors wrapped \<noteq> []"
  shows "Unmarshal E apikey x ptr w =
           ((Some (errorString (''query error: '' @ fmt_Errors (Errors wrapped))), ptr),
            snd (Do E apikey x w)) \<and>
         (\<forall>e\<in>set (Errors wrapped).
            strings_Contains (Error (errorString (''query error: '' @ fmt_Errors (Errors wrapped))))
              (Message e))"
proof
  show "Unmarshal E apikey x ptr w =
           ((Some (errorString (''query error: '' @ fmt_Errors (Errors wrapped))), ptr),
            snd (Do E apikey x w))"
    using assms by (simp add: Unmarshal_response)
next
  show "\<forall>e\<in>set (Errors wrapped).
            strings_Contains (Error (errorString (''query error: '' @ fmt_Errors (Errors wrapped))))
              (Message e)"
  proof
    fix e assume "e \<in> set (Errors wrapped)"
    then have "Message e \<in> set (map ErrorM_String (Errors wrapped))"
      by (auto simp: ErrorM_String_def)
    then have "sublist (Message e) (join '' '' (map ErrorM_String (Errors wrapped)))"
      by (rule sublist_join)
    then obtain ps ss where "join '' '' (map ErrorM_String (Errors wrapped)) = ps @ Message e @ ss"
      by (auto simp: sublist_def)
    then have "''query error: '' @ fmt_Errors (Errors wrapped) =
                 (''query error: ['' @ ps) @ Message e @ (ss @ '']'')"
      by (simp add: fmt_Errors_def)
    then have "sublist (Message e) (''query error: '' @ fmt_Errors (Errors wrapped))"
      unfolding sublist_def by blast
    then show "strings_Contains (Error (errorString (''query error: '' @ fmt_Errors (Errors wrapped))))
              (Message e)"
      by (simp add: strings_Contains_def)
  qed
qed

text \<open>The body \<open>{"data": null, "errors": [{"message":"bad field"}]}\<close>.\<close>

theorem Unmarshal_query_error_witness:
  "fst (Unmarshal (mock_server body_errors) ''key'' query1 (T_target 0) []) =
     (Some (errorString ''query error: [bad field]''), T_target 0) \<and>
   strings_Contains ''query error: [bad field]'' ''bad field''"
proof -
  have d: "fst (Do (mock_server body_errors) ''key'' query1 []) = Inr body_errors" by code_simp
  have u: "Unmarshal_Wrapper body_errors =
             (None, \<lparr>Data = ''null'', Errors = [\<lparr>Message = ''bad field'', Locations = []\<rparr>]\<rparr>)"
    by code_simp
  have f: "fmt_Errors [\<lparr>Message = ''bad field'', Locations = []\<rparr>] = ''[bad field]''"
    by code_simp
  show ?thesis
    using Unmarshal_query_error [OF d u, of "T_target 0"] by (simp add: f)
qed

text \<open>
  Claim C3. When the envelope parse fails with an error whose text contains
  \<open>invalid character '<'\<close>, \<open>Unmarshal\<close> fails with the error \<open>resp: \<close> followed by the raw
  response text; the body is not decoded into the target, which is as it was.
\<close>

theorem Unmarshal_html_response:
  assumes "fst (Do E apikey x w) = Inr resp"
    and "Unmarshal_Wrapper resp = (Some err, wrapped)"
    and "strings_Contains (Error err) invalid_character_lt"
  shows "Unmarshal E apikey x ptr w =
           ((Some (errorString (''resp: '' @ resp)), ptr), snd (Do E apikey x w)) \<and>
         strings_Contains (Error (errorString (''resp: '' @ resp))) resp"
proof -
  have "''resp: '' @ resp = ''resp: '' @ resp @ []" by simp
  then have "sublist resp (''resp: '' @ resp)" unfolding sublist_def by blast
  then show ?thesis using assms by (simp add: Unmarshal_response strings_Contains_def)
qed

text \<open>The body \<open><html>\<close>.\<close>

theorem Unmarshal_html_response_witness:
  "fst (Unmarshal (mock_server body_html) ''key'' query1 (T_target 0) []) =
     (Some (errorString ''resp: <html>''), T_target 0) \<and>
   strings_Contains ''resp: <html>'' ''<html>''"
proof -
  have d: "fst (Do (mock_server body_html) ''key'' query1 []) = Inr body_html" by code_simp
  have u: "Unmarshal_Wrapper body_html =
     (Some (SyntaxError (invalid_character_lt @ '' looking for beginning of value'')),
      \<lparr>Data = [], Errors = []\<rparr>)"
    by code_simp
  have c: "strings_Contains
     (Error (SyntaxError (invalid_character_lt @ '' looking for beginning of value'')))
     invalid_character_lt"
    by code_simp
  show ?thesis
    using Unmarshal_html_response [OF d u c, of "T_target 0"] by (simp add: body_html_def)
qed

text \<open>
  Claim C4. When the body parses as the envelope and the errors sequence is empty,
  \<open>Unmarshal\<close> decodes the raw data payload into the caller's target: its result is the
  result of that decoding, the error if it fails and success otherwise.
\<close>

theorem Unmarshal_decodes_data:
  assumes "fst (Do E apikey x w) = Inr resp"
    and "Unmarshal_Wrapper resp = (None, wrapped)"
    and "Errors wrapped = []"
  shows "Unmarshal E apikey x ptr w = (json_Unmarshal (Data wrapped) ptr, snd (Do E apikey x w))"
  using assms by (simp add: Unmarshal_response)

text \<open>The body \<open>{"data": {"x": 1}, "errors": []}\<close> and a target with the field \<open>x\<close>: \<open>x\<close> is 1.\<close>

theorem Unmarshal_decodes_data_witness:
  "fst (Unmarshal (mock_server body_enveloped) ''key'' query1 (T_target 0) []) = (None, T_target 1)"
proof -
  have d: "fst (Do (mock_server body_enveloped) ''key'' query1 []) = Inr body_enveloped"
    by code_simp
  have u: "Unmarshal_Wrapper body_enveloped = (None, \<lparr>Data = ''{\"x\": 1}'', Errors = []\<rparr>)"
    by code_simp
  have j: "json_Unmarshal ''{\"x\": 1}'' (T_target 0) = (None, T_target 1)" by code_simp
  show ?thesis
    using Unmarshal_decodes_data [OF d u, of "T_target 0"] by (simp add: j)
qed

text \<open>
  Claim C1. A response body that is a bare JSON document, such as \<open>{"x": 7}\<close>, is to be
  decoded directly into the caller's target, so that a target with the field \<open>x\<close> ends
  with \<open>x = 7\<close> and no error. The code does not do this for \<open>{"x": 7}\<close>: the body parses
  as an envelope without data, the nil data payload is decoded with no check, and the call
  fails with \<open>unexpected end of JSON input\<close> while \<open>x\<close> stays 0. Line 75 does decode bare
  bodies that the envelope parse refuses: the array \<open>[1, 2]\<close> and the object
  \<open>{"x": 7, "errors": "none"}\<close> are decoded into the target.
\<close>

theorem bare_object_not_decoded:
  "fst (Unmarshal (mock_server body_bare) ''key'' query1 (T_target 0) []) =
     (Some (SyntaxError ''unexpected end of JSON input''), T_target 0) \<and>
   fst (Unmarshal (mock_server body_bad_errors) ''key'' query1 (T_target 0) []) =
     (None, T_target 7) \<and>
   fst (Unmarshal (mock_server body_array) ''key'' query1 (ints_target None) []) =
     (None, ints_target (Some [1, 2]))"
  by code_simp

text \<open>
  Claim C9 says that an object with neither a \<open>data\<close> nor an \<open>errors\<close> field is parsed
  with an absent data payload and gives an error. A struct field is also found by a key
  that differs in letter case: the only key of \<open>{"Data": {"x": 1}}\<close> is \<open>Data\<close>, and
  the call succeeds with \<open>x = 1\<close>.
\<close>

theorem capitalised_key_counterexample:
  "object_keys body_Data = Some [''Data''] \<and>
   fst (Unmarshal (mock_server body_Data) ''key'' query1 (T_target 0) []) = (None, T_target 1)"
  by code_simp

text \<open>
  Claim C9, as the code has it. When the body is a JSON object none of whose keys is
  \<open>data\<close> or \<open>errors\<close> up to letter case, the envelope parse succeeds with no data payload
  and no errors, the fallback is not taken, and \<open>Unmarshal\<close> returns the error of decoding
  the empty payload, \<open>unexpected end of JSON input\<close>; the target is as it was.
\<close>

theorem Unmarshal_bare_object:
  assumes "fst (Do E apikey x w) = Inr resp"
    and "checkValid resp = Inr (raw, JObject ms)"
    and "\<forall>m\<in>set ms. foldName (fst m) \<noteq> ''DATA'' \<and> foldName (fst m) \<noteq> ''ERRORS''"
  shows "Unmarshal_Wrapper resp = (None, \<lparr>Data = [], Errors = []\<rparr>) \<and>
         Unmarshal E apikey x ptr w =
           ((Some (SyntaxError ''unexpected end of JSON input''), ptr), snd (Do E apikey x w))"
proof -
  have u: "Unmarshal_Wrapper resp = (None, \<lparr>Data = [], Errors = []\<rparr>)"
    using assms(2,3) by (rule Unmarshal_Wrapper_no_fields)
  then show ?thesis
    using assms(1) by (simp add: Unmarshal_response json_Unmarshal_empty)
qed

text \<open>The body \<open>{"x": 7}\<close>.\<close>

theorem Unmarshal_bare_object_witness:
  "Unmarshal_Wrapper body_bare = (None, \<lparr>Data = [], Errors = []\<rparr>) \<and>
   fst (Unmarshal (mock_server body_bare) ''key'' query1 (T_target 0) []) =
     (Some (SyntaxError ''unexpected end of JSON input''), T_target 0)"
proof -
  have d: "fst (Do (mock_server body_bare) ''key'' query1 []) = Inr body_bare" by code_simp
  have c: "checkValid body_bare = Inr (body_bare, JObject [(''x'', ''7'', JNumber ''7'')])"
    by code_simp
  have k: "\<forall>m\<in>set [(''x'', ''7'', JNumber ''7'')].
             foldName (fst m) \<noteq> ''DATA'' \<and> foldName (fst m) \<noteq> ''ERRORS''"
    by code_simp
  show ?thesis
    using Unmarshal_bare_object [OF d c k, of "T_target 0"] by simp
qed




text \<open>
  Claim C5. For every API key and every valid descriptor, one whose object of \<open>query\<close> and
  \<open>variables\<close> json.Marshal serialises, to \<open>q\<close>, and whose endpoint http.NewRequest
  accepts, \<open>Do\<close> hands exactly one request to the shared client: a POST to the descriptor's
  endpoint with the body \<open>q\<close>, the header Content-Type set to application/json and the
  header X-API-KEY set to the key as it was given.
\<close>

theorem Do_sends_one_POST:
  assumes "json_Marshal E [(''query'', AnyString (Query x)), (''variables'', AnyVars (ToMap x))] = Inr q"
    and "url_Parse E (Endpoint x) = None"
  shows "\<exists>req. sent (snd (Do E apikey x w)) = sent w @ [req] \<and>
           Method req = ''POST'' \<and> URL req = Endpoint x \<and> ReqBody req = q \<and>
           Header_Get req ''Content-Type'' = ''application/json'' \<and>
           Header_Get req ''X-API-KEY'' = apikey"
proof -
  let ?req = "\<lparr>Method = ''POST'', URL = Endpoint x,
                Header = [(''X-Api-Key'', [apikey]), (''Content-Type'', [''application/json''])],
                ReqBody = q\<rparr>"
  have "sent (snd (Do E apikey x w)) = sent w @ [?req]" using assms by (rule sent_Do)
  moreover have "Header_Get ?req ''Content-Type'' = ''application/json''"
    by (simp add: Header_Get_def canonical_content_type)
  moreover have "Header_Get ?req ''X-API-KEY'' = apikey"
    by (simp add: Header_Get_def canonical_api_key)
  ultimately show ?thesis by (intro exI [of _ ?req]) simp
qed

text \<open>
  The descriptor \<open>query1\<close> and the key \<open>secret\<close>: the body sent is
  \<open>{"query":"{ ethereum { blocks { count } } }","variables":{}}\<close>.
\<close>

theorem Do_sends_one_POST_witness:
  "\<exists>req. sent (snd (Do (mock_server body_enveloped) ''secret'' query1 [])) = [req] \<and>
     Method req = ''POST'' \<and> URL req = Endpoint1 \<and> ReqBody req = body_query1 \<and>
     Header_Get req ''Content-Type'' = ''application/json'' \<and>
     Header_Get req ''X-API-KEY'' = ''secret''"
proof -
  have m: "json_Marshal (mock_server body_enveloped)
             [(''query'', AnyString (Query query1)), (''variables'', AnyVars (ToMap query1))] =
           Inr body_query1"
    by code_simp
  have u: "url_Parse (mock_server body_enveloped) (Endpoint query1) = None"
    by (simp add: mock_server_def)
  have e: "Endpoint query1 = Endpoint1" by (simp add: query1_def)
  show ?thesis
    using Do_sends_one_POST [OF m u, of "''secret''" "[]"] by (simp add: e)
qed

text \<open>
  Claim C6. Once the client has returned a response, whatever its status code, \<open>Do\<close>
  returns exactly the bytes of the response body when they can all be read and the read
  error otherwise, and in both cases the body is closed after the request.
\<close>

theorem Do_returns_body:
  assumes "json_Marshal E [(''query'', AnyString (Query x)), (''variables'', AnyVars (ToMap x))] = Inr q"
    and "url_Parse E (Endpoint x) = None"
    and "client_Do E (Header_Set ''X-API-KEY'' apikey (Header_Set ''Content-Type'' ''application/json''
           \<lparr>Method = MethodPost, URL = Endpoint x, Header = [], ReqBody = q\<rparr>)) =
         Inr \<lparr>StatusCode = sc, Body = b\<rparr>"
  shows "(read_err b = None \<longrightarrow> fst (Do E apikey x w) = Inr (content b)) \<and>
         (\<forall>e. read_err b = Some e \<longrightarrow> fst (Do E apikey x w) = Inl e) \<and>
         (\<exists>req. snd (Do E apikey x w) = w @ [ClientDo req, BodyClose b])"
  using assms
  by (simp add: Do_def http_NewRequest_def io_ReadAll_def Let_def split: option.splits)

text \<open>A response with status 500: its body is returned and closed.\<close>

theorem Do_returns_body_witness:
  "fst (Do server_error ''key'' query1 []) = Inr ''Internal Server Error'' \<and>
   (\<exists>req. snd (Do server_error ''key'' query1 []) =
      [ClientDo req, BodyClose \<lparr>content = ''Internal Server Error'', read_err = None\<rparr>])"
proof -
  have m: "json_Marshal server_error
             [(''query'', AnyString (Query query1)), (''variables'', AnyVars (ToMap query1))] =
           Inr body_query1"
    by code_simp
  have u: "url_Parse server_error (Endpoint query1) = None"
    by (simp add: server_error_def)
  have c: "client_Do server_error (Header_Set ''X-API-KEY'' ''key''
             (Header_Set ''Content-Type'' ''application/json''
               \<lparr>Method = MethodPost, URL = Endpoint query1, Header = [], ReqBody = body_query1\<rparr>)) =
           Inr \<lparr>StatusCode = 500, Body = \<lparr>content = ''Internal Server Error'', read_err = None\<rparr>\<rparr>"
    by (simp add: server_error_def)
  show ?thesis
    using Do_returns_body [OF m u c, of "[]"] by simp
qed

end
